theory Spec2Isabelle
  imports Main "HOL-Library.Word"
begin

section \<open>Kubernetes API objects handled by the controller\<close>

text \<open>
  The controller of \<^verbatim>\<open>controllers/custompodautoscaler_controller.go\<close> works on API
  structs. Each struct is a record holding the fields the controller reads or writes,
  together with a few of the fields it only copies. A Go \<^verbatim>\<open>*bool\<close> is a
  \<open>bool option\<close> (\<open>None\<close> is the nil pointer), a slice or map whose nil-ness the code
  tests is an \<open>option\<close> too, \<^verbatim>\<open>int32\<close> is a 32-bit word read with \<open>sint\<close>.
\<close>

type_synonym int32 = "32 word"

record ObjectMeta =
  Name :: string
  Namespace :: string
  Labels :: "(string \<rightharpoonup> string) option"
  Annotations :: "(string \<rightharpoonup> string) option"
  DeletionTimestamp :: "nat option"

record TypeMeta =
  Kind :: string
  APIVersion :: string

record CrossVersionObjectReference =
  RefKind :: string
  RefName :: string
  RefAPIVersion :: string

record CustomPodAutoscalerConfig =
  ConfigName :: string
  ConfigValue :: string

record EnvVar =
  EnvName :: string
  EnvValue :: string

record Container =
  ContainerName :: string
  Image :: string
  Command :: "string list"
  Env :: "EnvVar list option"

record PodSpec =
  InitContainers :: "Container list"
  Containers :: "Container list"
  RestartPolicy :: string
  ServiceAccountName :: string

record PodTemplateSpec =
  TemplateObjectMeta :: ObjectMeta
  TemplateSpec :: PodSpec

record CustomPodAutoscalerSpec =
  Template :: PodTemplateSpec
  ScaleTargetRef :: CrossVersionObjectReference
  Config :: "CustomPodAutoscalerConfig list"
  ProvisionRole :: "bool option"
  ProvisionRoleBinding :: "bool option"
  ProvisionServiceAccount :: "bool option"
  ProvisionPod :: "bool option"
  RoleRequiresMetricsServer :: "bool option"
  RoleRequiresArgoRollouts :: "bool option"

record CustomPodAutoscaler =
  CPATypeMeta :: TypeMeta
  CPAObjectMeta :: ObjectMeta
  Spec :: CustomPodAutoscalerSpec

record ServiceAccount =
  SAObjectMeta :: ObjectMeta

record PolicyRule =
  APIGroups :: "string list"
  Resources :: "string list"
  Verbs :: "string list"

record Role =
  RoleObjectMeta :: ObjectMeta
  Rules :: "PolicyRule list"

record Subject =
  SubjectKind :: string
  SubjectName :: string
  SubjectNamespace :: string

record RoleRef =
  RoleRefKind :: string
  RoleRefName :: string
  RoleRefAPIGroup :: string

record RoleBinding =
  RBObjectMeta :: ObjectMeta
  Subjects :: "Subject list"
  RoleRef :: RoleRef

record Pod =
  PodObjectMeta :: ObjectMeta
  PodSpec :: PodSpec

text \<open>The \<^verbatim>\<open>metav1.Object\<close> values handed to the object reconciler.\<close>

datatype Object =
    ServiceAccountObject ServiceAccount
  | RoleObject Role
  | RoleBindingObject RoleBinding
  | PodObject Pod

record ScaleSpec =
  Replicas :: int32

record ScaleStatus =
  StatusReplicas :: int32
  Selector :: string

record Scale =
  ScaleTypeMeta :: TypeMeta
  ScaleObjectMeta :: ObjectMeta
  ScaleSpec :: ScaleSpec
  ScaleStatus :: ScaleStatus

record GroupVersion =
  Group :: string
  Version :: string

record GroupResource =
  GRGroup :: string
  GRResource :: string

record NamespacedName =
  ReqNamespace :: string
  ReqName :: string

record Result =
  Requeue :: bool
  RequeueAfter :: nat

section \<open>Errors and outcomes\<close>

datatype numerr = ErrSyntax | ErrRange

datatype error =
    NumError string string numerr
  | ErrGroupVersion string
  | StatusNotFound string
  | StatusBadRequest string
  | ErrOther string

text \<open>
  \<^verbatim>\<open>Reconcile\<close> returns a pair \<^verbatim>\<open>(ctrl.Result, error)\<close>, or panics when the scale target
  reference cannot be serialised.
\<close>

datatype outcome =
    Return Result "error option"
  | Panic error

definition IsNotFound :: "error \<Rightarrow> bool" where
  "IsNotFound err = (case err of StatusNotFound _ \<Rightarrow> True | _ \<Rightarrow> False)"

definition NewBadRequest :: "string \<Rightarrow> error" where
  "NewBadRequest reason = StatusBadRequest reason"

definition emptyResult :: Result where
  "emptyResult = \<lparr>Requeue = False, RequeueAfter = 0\<rparr>"

definition emptyObjectMeta :: ObjectMeta where
  "emptyObjectMeta =
     \<lparr>Name = [], Namespace = [], Labels = None, Annotations = None, DeletionTimestamp = None\<rparr>"

section \<open>Constants of the controller\<close>

definition managedByLabel :: string where
  "managedByLabel = ''app.kubernetes.io/managed-by''"

definition OwnedByLabel :: string where
  "OwnedByLabel = ''v1.custompodautoscaler.com/owned-by''"

definition PausedReplicasAnnotation :: string where
  "PausedReplicasAnnotation = ''v1.custompodautoscaler.com/paused-replicas''"

section \<open>Library functions called by the controller\<close>

text \<open>
  \<^verbatim>\<open>strconv.ParseInt(s, 10, 32)\<close> of the Go standard library, specialised to base 10 and bit
  size 32 as the controller calls it. \<^verbatim>\<open>ParseUint\<close> reads the digits left to right into an
  unsigned 64-bit accumulator: a byte that is no decimal digit is a syntax error, a value above
  \<open>2^32 - 1\<close> a range error. \<^verbatim>\<open>ParseInt\<close> strips one sign, and reports a range error
  outside \<open>[-2^31, 2^31 - 1]\<close>. Both return a value beside the error.
\<close>

definition digit :: "char \<Rightarrow> nat option" where
  "digit c =
     (if (48::nat) \<le> of_char c \<and> of_char c \<le> (57::nat) then Some (of_char c - 48) else None)"

definition maxVal :: nat where
  "maxVal = 2 ^ 32 - 1"

definition cutoff64 :: nat where
  "cutoff64 = (2 ^ 64 - 1) div 10 + 1"

fun ParseUint_loop :: "nat \<Rightarrow> string \<Rightarrow> nat \<times> numerr option" where
  "ParseUint_loop n [] = (n, None)"
| "ParseUint_loop n (c # cs) =
     (case digit c of
        None \<Rightarrow> (0, Some ErrSyntax)
      | Some d \<Rightarrow>
          if n \<ge> cutoff64 then (maxVal, Some ErrRange)
          else
            let n10 = (n * 10) mod 2 ^ 64;
                n1 = (n10 + d) mod 2 ^ 64
            in if n1 < n10 \<or> n1 > maxVal then (maxVal, Some ErrRange)
               else ParseUint_loop n1 cs)"

definition ParseUint :: "string \<Rightarrow> nat \<times> numerr option" where
  "ParseUint s = (if s = [] then (0, Some ErrSyntax) else ParseUint_loop 0 s)"

definition ParseInt :: "string \<Rightarrow> int \<times> error option" where
  "ParseInt s0 =
     (if s0 = [] then (0, Some (NumError ''ParseInt'' s0 ErrSyntax))
      else
        let neg = (hd s0 = CHR ''-'');
            s = (if hd s0 = CHR ''+'' \<or> hd s0 = CHR ''-'' then tl s0 else s0);
            (un, err) = ParseUint s;
            cutoff = (2 ^ 31 :: nat)
        in if err \<noteq> None \<and> err \<noteq> Some ErrRange
           then (0, Some (NumError ''ParseInt'' s0 ErrSyntax))
           else if \<not> neg \<and> un \<ge> cutoff
           then (int cutoff - 1, Some (NumError ''ParseInt'' s0 ErrRange))
           else if neg \<and> un > cutoff
           then (- int cutoff, Some (NumError ''ParseInt'' s0 ErrRange))
           else (if neg then - int un else int un, None))"

text \<open>
  \<^verbatim>\<open>schema.ParseGroupVersion\<close> of apimachinery: the empty string and \<^verbatim>\<open>/\<close> give the empty
  group version, a string without a slash is a version of the core group, one slash separates
  group and version, more slashes are an error.
\<close>

definition ParseGroupVersion :: "string \<Rightarrow> error + GroupVersion" where
  "ParseGroupVersion gv =
     (if gv = [] \<or> gv = ''/'' then Inr \<lparr>Group = [], Version = []\<rparr>
      else if count_list gv CHR ''/'' = 0 then Inr \<lparr>Group = [], Version = gv\<rparr>
      else if count_list gv CHR ''/'' = 1 then
        Inr \<lparr>Group = takeWhile (\<lambda>c. c \<noteq> CHR ''/'') gv,
             Version = tl (dropWhile (\<lambda>c. c \<noteq> CHR ''/'') gv)\<rparr>
      else Inl (ErrGroupVersion gv))"

section \<open>The collaborators and the log of their calls\<close>

text \<open>
  \<^verbatim>\<open>Reconcile\<close> talks to four collaborators: the cluster client (\<^verbatim>\<open>r.Client\<close>), the scale
  client (\<^verbatim>\<open>r.ScalingClient\<close>), the object reconciler and the pod cleanup
  (\<^verbatim>\<open>r.KubernetesResourceReconciler\<close>). Their code is outside the controller, so each is a
  parameter: a function of its arguments and of the state \<open>'w\<close> of the cluster, giving what the
  Go method returns and the next state. \<^verbatim>\<open>json.Marshal\<close> on the scale target reference is
  a parameter as well. The collaborators are taken not to write through the
  \<^verbatim>\<open>instance\<close> pointer they receive. The logger is left out.

  A run carries the state of the cluster and the calls made so far, oldest first.
\<close>

datatype call =
    ClientGet NamespacedName
  | ClientDelete CustomPodAutoscaler
  | ScalesGet string GroupResource string
  | ScalesUpdate string GroupResource Scale
  | KRReconcile CustomPodAutoscaler Object bool bool string
  | KRPodCleanup CustomPodAutoscaler

record 'w CustomPodAutoscalerReconciler =
  Client_Get :: "NamespacedName \<Rightarrow> 'w \<Rightarrow> (error + CustomPodAutoscaler) \<times> 'w"
  Client_Delete :: "CustomPodAutoscaler \<Rightarrow> 'w \<Rightarrow> error option \<times> 'w"
  Scales_Get :: "string \<Rightarrow> GroupResource \<Rightarrow> string \<Rightarrow> 'w \<Rightarrow> (error + Scale) \<times> 'w"
  Scales_Update :: "string \<Rightarrow> GroupResource \<Rightarrow> Scale \<Rightarrow> 'w \<Rightarrow> (error + Scale) \<times> 'w"
  KRR_Reconcile ::
    "CustomPodAutoscaler \<Rightarrow> Object \<Rightarrow> bool \<Rightarrow> bool \<Rightarrow> string \<Rightarrow> 'w
       \<Rightarrow> (Result \<times> error option) \<times> 'w"
  KRR_PodCleanup :: "CustomPodAutoscaler \<Rightarrow> 'w \<Rightarrow> error option \<times> 'w"
  json_Marshal :: "CrossVersionObjectReference \<Rightarrow> error + string"

record 'w run =
  world :: 'w
  calls :: "call list"

definition invoke :: "call \<Rightarrow> ('w \<Rightarrow> 'a \<times> 'w) \<Rightarrow> 'w run \<Rightarrow> 'a \<times> 'w run" where
  "invoke c f st =
     (case f (world st) of (a, w') \<Rightarrow> (a, \<lparr>world = w', calls = calls st @ [c]\<rparr>))"

section \<open>The pause-override path (lines 141 to 191)\<close>

definition GetAnnotations :: "CustomPodAutoscaler \<Rightarrow> string \<rightharpoonup> string" where
  "GetAnnotations instance key =
     (case Annotations (CPAObjectMeta instance) of None \<Rightarrow> None | Some m \<Rightarrow> m key)"

definition pausePath ::
  "'w CustomPodAutoscalerReconciler \<Rightarrow> CustomPodAutoscaler \<Rightarrow> string \<Rightarrow> 'w run
     \<Rightarrow> outcome \<times> 'w run" where
  "pausePath r instance pausedReplicasCount st =
     (case ParseInt pausedReplicasCount of
        (pausedReplicasCountInt64, err) \<Rightarrow>
          let pausedReplicasCountInt32 = (word_of_int pausedReplicasCountInt64 :: int32) in
          case err of
            Some e \<Rightarrow> (Return emptyResult (Some e), st)
          | None \<Rightarrow>
             (case invoke (ClientDelete instance) (Client_Delete r instance) st of
                (Some e, st1) \<Rightarrow> (Return emptyResult (Some e), st1)
              | (None, st1) \<Rightarrow>
                 let scaleTargetRef = ScaleTargetRef (Spec instance) in
                 case ParseGroupVersion (RefAPIVersion scaleTargetRef) of
                   Inl e \<Rightarrow> (Return emptyResult (Some e), st1)
                 | Inr resourceGV \<Rightarrow>
                    let targetGR =
                          \<lparr>GRGroup = Group resourceGV, GRResource = RefKind scaleTargetRef\<rparr>;
                        ns = Namespace (CPAObjectMeta instance)
                    in case invoke (ScalesGet ns targetGR (RefName scaleTargetRef))
                              (Scales_Get r ns targetGR (RefName scaleTargetRef)) st1 of
                         (Inl e, st2) \<Rightarrow> (Return emptyResult (Some e), st2)
                       | (Inr scaleResource0, st2) \<Rightarrow>
                          let scaleResource =
                                scaleResource0
                                  \<lparr>ScaleSpec :=
                                     (ScaleSpec scaleResource0)
                                       \<lparr>Replicas := pausedReplicasCountInt32\<rparr>\<rparr>
                          in case invoke (ScalesUpdate ns targetGR scaleResource)
                                    (Scales_Update r ns targetGR scaleResource) st2 of
                               (Inl e, st3) \<Rightarrow> (Return emptyResult (Some e), st3)
                             | (Inr _, st3) \<Rightarrow> (Return emptyResult None, st3)))"

section \<open>The normal path (lines 194 to 389)\<close>

text \<open>Lines 194 to 217: a nil toggle is replaced by a pointer to its default.\<close>

definition applyDefaults :: "CustomPodAutoscaler \<Rightarrow> CustomPodAutoscaler" where
  "applyDefaults instance =
     (let s0 = Spec instance;
          s1 = (if ProvisionRole s0 = None then s0\<lparr>ProvisionRole := Some True\<rparr> else s0);
          s2 = (if ProvisionRoleBinding s1 = None
                then s1\<lparr>ProvisionRoleBinding := Some True\<rparr> else s1);
          s3 = (if ProvisionServiceAccount s2 = None
                then s2\<lparr>ProvisionServiceAccount := Some True\<rparr> else s2);
          s4 = (if ProvisionPod s3 = None then s3\<lparr>ProvisionPod := Some True\<rparr> else s3);
          s5 = (if RoleRequiresMetricsServer s4 = None
                then s4\<lparr>RoleRequiresMetricsServer := Some False\<rparr> else s4);
          s6 = (if RoleRequiresArgoRollouts s5 = None
                then s5\<lparr>RoleRequiresArgoRollouts := Some False\<rparr> else s5)
      in instance\<lparr>Spec := s6\<rparr>)"

text \<open>Lines 226 to 229.\<close>

definition labels :: "CustomPodAutoscaler \<Rightarrow> string \<rightharpoonup> string" where
  "labels instance =
     [managedByLabel \<mapsto> ''custom-pod-autoscaler-operator'',
      OwnedByLabel \<mapsto> Name (CPAObjectMeta instance)]"

text \<open>Lines 232 to 253: the service account, or the validation error.\<close>

definition serviceAccount :: "CustomPodAutoscaler \<Rightarrow> error + ServiceAccount" where
  "serviceAccount instance =
     (if \<not> the (ProvisionServiceAccount (Spec instance)) then
        if ServiceAccountName (TemplateSpec (Template (Spec instance))) \<noteq> [] then
          Inr \<lparr>SAObjectMeta = emptyObjectMeta
                 \<lparr>Name := ServiceAccountName (TemplateSpec (Template (Spec instance))),
                  Namespace := Namespace (CPAObjectMeta instance),
                  Labels := Some (labels instance)\<rparr>\<rparr>
        else Inl (NewBadRequest ''ServiceAccount not provided in the CustomPodAutoscaler spec'')
      else
        Inr \<lparr>SAObjectMeta = emptyObjectMeta
               \<lparr>Name := Name (CPAObjectMeta instance),
                Namespace := Namespace (CPAObjectMeta instance),
                Labels := Some (labels instance)\<rparr>\<rparr>)"

text \<open>Lines 261 to 295: the role, its two fixed rules and the two optional ones.\<close>

definition role :: "CustomPodAutoscaler \<Rightarrow> Role" where
  "role instance =
     (let role0 =
            \<lparr>RoleObjectMeta = emptyObjectMeta
               \<lparr>Name := Name (CPAObjectMeta instance),
                Namespace := Namespace (CPAObjectMeta instance),
                Labels := Some (labels instance)\<rparr>,
             Rules =
               [\<lparr>APIGroups = [[]],
                 Resources = [''pods'', ''replicationcontrollers'',
                              ''replicationcontrollers/scale''],
                 Verbs = [''*'']\<rparr>,
                \<lparr>APIGroups = [''apps''],
                 Resources = [''deployments'', ''deployments/scale'', ''replicasets'',
                              ''replicasets/scale'', ''statefulsets'', ''statefulsets/scale''],
                 Verbs = [''*'']\<rparr>]\<rparr>;
          role1 =
            (if the (RoleRequiresMetricsServer (Spec instance)) then
               role0\<lparr>Rules := Rules role0 @
                 [\<lparr>APIGroups = [''metrics.k8s.io'', ''custom.metrics.k8s.io'',
                                ''external.metrics.k8s.io''],
                   Resources = [''*''],
                   Verbs = [''*'']\<rparr>]\<rparr>
             else role0);
          role2 =
            (if the (RoleRequiresArgoRollouts (Spec instance)) then
               role1\<lparr>Rules := Rules role1 @
                 [\<lparr>APIGroups = [''argoproj.io''],
                   Resources = [''rollouts'', ''rollouts/scale''],
                   Verbs = [''*'']\<rparr>]\<rparr>
             else role1)
      in role2)"

text \<open>Lines 303 to 321.\<close>

definition roleBinding :: "CustomPodAutoscaler \<Rightarrow> RoleBinding" where
  "roleBinding instance =
     \<lparr>RBObjectMeta = emptyObjectMeta
        \<lparr>Name := Name (CPAObjectMeta instance),
         Namespace := Namespace (CPAObjectMeta instance),
         Labels := Some (labels instance)\<rparr>,
      Subjects =
        [\<lparr>SubjectKind = ''ServiceAccount'',
          SubjectName = Name (CPAObjectMeta instance),
          SubjectNamespace = Namespace (CPAObjectMeta instance)\<rparr>],
      RoleRef =
        \<lparr>RoleRefKind = ''Role'',
         RoleRefName = Name (CPAObjectMeta instance),
         RoleRefAPIGroup = ''rbac.authorization.k8s.io''\<rparr>\<rparr>"

text \<open>
  Lines 330 to 337: the pod labels. When the template has a label map, \<^verbatim>\<open>podLabels\<close> is that
  very map, so the two assignments also change the template of \<^verbatim>\<open>instance\<close>.
\<close>

definition podLabels :: "CustomPodAutoscaler \<Rightarrow> string \<rightharpoonup> string" where
  "podLabels instance =
     (let podLabels0 =
            (case Labels (TemplateObjectMeta (Template (Spec instance))) of
               None \<Rightarrow> Map.empty
             | Some l \<Rightarrow> l)
      in podLabels0(managedByLabel \<mapsto> ''custom-pod-autoscaler-operator'',
                    OwnedByLabel \<mapsto> Name (CPAObjectMeta instance)))"

definition afterPodLabels :: "CustomPodAutoscaler \<Rightarrow> CustomPodAutoscaler" where
  "afterPodLabels instance =
     (case Labels (TemplateObjectMeta (Template (Spec instance))) of
        None \<Rightarrow> instance
      | Some _ \<Rightarrow>
          instance\<lparr>Spec := (Spec instance)
            \<lparr>Template := (Template (Spec instance))
              \<lparr>TemplateObjectMeta := (TemplateObjectMeta (Template (Spec instance)))
                \<lparr>Labels := Some (podLabels instance)\<rparr>\<rparr>\<rparr>\<rparr>)"

text \<open>Lines 341 to 348.\<close>

definition objectMeta :: "CustomPodAutoscaler \<Rightarrow> ObjectMeta" where
  "objectMeta instance =
     (let m0 = TemplateObjectMeta (Template (Spec instance));
          m1 = (if Name m0 = [] then m0\<lparr>Name := Name (CPAObjectMeta instance)\<rparr> else m0);
          m2 = (if Namespace m1 = []
                then m1\<lparr>Namespace := Namespace (CPAObjectMeta instance)\<rparr> else m1)
      in m2\<lparr>Labels := Some (podLabels instance)\<rparr>)"

text \<open>Lines 409 to 418.\<close>

fun createEnvVarsFromConfig_loop ::
  "EnvVar list \<Rightarrow> CustomPodAutoscalerConfig list \<Rightarrow> EnvVar list" where
  "createEnvVarsFromConfig_loop envVars [] = envVars"
| "createEnvVarsFromConfig_loop envVars (config # configs) =
     createEnvVarsFromConfig_loop
       (envVars @ [\<lparr>EnvName = ConfigName config, EnvValue = ConfigValue config\<rparr>]) configs"

definition createEnvVarsFromConfig :: "CustomPodAutoscalerConfig list \<Rightarrow> EnvVar list" where
  "createEnvVarsFromConfig configs = createEnvVarsFromConfig_loop [] configs"

text \<open>Lines 393 to 406.\<close>

definition cpaEnvVars :: "CustomPodAutoscaler \<Rightarrow> string \<Rightarrow> EnvVar list" where
  "cpaEnvVars cr scaleTargetRef =
     (let envVars = [\<lparr>EnvName = ''scaleTargetRef'', EnvValue = scaleTargetRef\<rparr>,
                     \<lparr>EnvName = ''namespace'', EnvValue = Namespace (CPAObjectMeta cr)\<rparr>]
      in envVars @ createEnvVarsFromConfig (Config (Spec cr)))"

text \<open>Lines 353 to 368: the loop over the containers of the template.\<close>

fun containers_loop ::
  "CustomPodAutoscaler \<Rightarrow> string \<Rightarrow> Container list \<Rightarrow> Container list \<Rightarrow> Container list" where
  "containers_loop instance scaleTargetRef containers [] = containers"
| "containers_loop instance scaleTargetRef containers (container # rest) =
     (let envVars0 = (case Env container of None \<Rightarrow> [] | Some e \<Rightarrow> e);
          envVars = envVars0 @ cpaEnvVars instance scaleTargetRef;
          container' = container\<lparr>Env := Some envVars\<rparr>
      in containers_loop instance scaleTargetRef (containers @ [container']) rest)"

text \<open>Lines 351 to 377: the pod handed to the object reconciler.\<close>

definition pod :: "CustomPodAutoscaler \<Rightarrow> string \<Rightarrow> ServiceAccount \<Rightarrow> Pod" where
  "pod instance scaleTargetRef sa =
     (let podSpec0 = TemplateSpec (Template (Spec instance));
          containers = containers_loop instance scaleTargetRef [] (Containers podSpec0);
          podSpec = podSpec0\<lparr>Containers := containers,
                             ServiceAccountName := Name (SAObjectMeta sa)\<rparr>
      in \<lparr>PodObjectMeta = objectMeta instance, PodSpec = podSpec\<rparr>)"

text \<open>Lines 328 to 389: the pod is reconciled, then orphaned pods are cleaned up.\<close>

definition provisionPod ::
  "'w CustomPodAutoscalerReconciler \<Rightarrow> CustomPodAutoscaler \<Rightarrow> string \<Rightarrow> ServiceAccount
     \<Rightarrow> 'w run \<Rightarrow> outcome \<times> 'w run" where
  "provisionPod r instance0 scaleTargetRef sa st =
     (let p = pod instance0 scaleTargetRef sa;
          instance = afterPodLabels instance0
      in case invoke (KRReconcile instance (PodObject p)
                        (the (ProvisionPod (Spec instance))) False ''v1/Pod'')
                (KRR_Reconcile r instance (PodObject p)
                        (the (ProvisionPod (Spec instance))) False ''v1/Pod'') st of
           ((result, Some err), st1) \<Rightarrow> (Return result (Some err), st1)
         | ((result, None), st1) \<Rightarrow>
             (case invoke (KRPodCleanup instance) (KRR_PodCleanup r instance) st1 of
                (Some err, st2) \<Rightarrow> (Return result (Some err), st2)
              | (None, st2) \<Rightarrow> (Return result None, st2)))"

text \<open>Lines 194 to 326, continued by the pod.\<close>

definition normalPath ::
  "'w CustomPodAutoscalerReconciler \<Rightarrow> CustomPodAutoscaler \<Rightarrow> 'w run \<Rightarrow> outcome \<times> 'w run" where
  "normalPath r instance0 st =
     (let instance = applyDefaults instance0 in
      case json_Marshal r (ScaleTargetRef (Spec instance)) of
        Inl err \<Rightarrow> (Panic err, st)
      | Inr scaleTargetRef \<Rightarrow>
         (case serviceAccount instance of
            Inl err \<Rightarrow> (Return emptyResult (Some err), st)
          | Inr sa \<Rightarrow>
             if the (ProvisionServiceAccount (Spec instance)) then
               case invoke (KRReconcile instance (ServiceAccountObject sa)
                              (the (ProvisionServiceAccount (Spec instance))) True
                              ''v1/ServiceAccount'')
                      (KRR_Reconcile r instance (ServiceAccountObject sa)
                              (the (ProvisionServiceAccount (Spec instance))) True
                              ''v1/ServiceAccount'') st of
                 ((result, Some err), st1) \<Rightarrow> (Return result (Some err), st1)
               | ((result, None), st1) \<Rightarrow>
                  (case invoke (KRReconcile instance (RoleObject (role instance))
                                  (the (ProvisionRole (Spec instance))) True ''v1/Role'')
                          (KRR_Reconcile r instance (RoleObject (role instance))
                                  (the (ProvisionRole (Spec instance))) True ''v1/Role'') st1 of
                     ((result, Some err), st2) \<Rightarrow> (Return result (Some err), st2)
                   | ((result, None), st2) \<Rightarrow>
                      (case invoke (KRReconcile instance (RoleBindingObject (roleBinding instance))
                                      (the (ProvisionRoleBinding (Spec instance))) True
                                      ''v1/RoleBinding'')
                              (KRR_Reconcile r instance (RoleBindingObject (roleBinding instance))
                                      (the (ProvisionRoleBinding (Spec instance))) True
                                      ''v1/RoleBinding'') st2 of
                         ((result, Some err), st3) \<Rightarrow> (Return result (Some err), st3)
                       | ((result, None), st3) \<Rightarrow>
                           provisionPod r instance scaleTargetRef sa st3))
             else provisionPod r instance scaleTargetRef sa st))"

section \<open>Reconcile (lines 114 to 390)\<close>

definition Reconcile ::
  "'w CustomPodAutoscalerReconciler \<Rightarrow> NamespacedName \<Rightarrow> 'w \<Rightarrow> outcome \<times> 'w run" where
  "Reconcile r req w =
     (case invoke (ClientGet req) (Client_Get r req) \<lparr>world = w, calls = []\<rparr> of
        (Inl err, st) \<Rightarrow>
          if IsNotFound err then (Return emptyResult None, st)
          else (Return emptyResult (Some err), st)
      | (Inr instance, st) \<Rightarrow>
          if DeletionTimestamp (CPAObjectMeta instance) \<noteq> None
          then (Return emptyResult None, st)
          else
            (case GetAnnotations instance PausedReplicasAnnotation of
               Some pausedReplicasCount \<Rightarrow> pausePath r instance pausedReplicasCount st
             | None \<Rightarrow> normalPath r instance st))"

section \<open>Reading the log of calls\<close>

text \<open>
  \<open>precedes P Q xs\<close>: every element of \<open>xs\<close> that satisfies \<open>Q\<close> has an element satisfying
  \<open>P\<close> strictly before it.
\<close>

fun precedes :: "('a \<Rightarrow> bool) \<Rightarrow> ('a \<Rightarrow> bool) \<Rightarrow> 'a list \<Rightarrow> bool" where
  "precedes P Q [] = True"
| "precedes P Q (x # xs) = (\<not> Q x \<and> (P x \<or> precedes P Q xs))"

fun isClientDelete :: "call \<Rightarrow> bool" where
  "isClientDelete (ClientDelete _) = True"
| "isClientDelete _ = False"

fun isScalesGet :: "call \<Rightarrow> bool" where
  "isScalesGet (ScalesGet _ _ _) = True"
| "isScalesGet _ = False"

fun isScalesUpdate :: "call \<Rightarrow> bool" where
  "isScalesUpdate (ScalesUpdate _ _ _) = True"
| "isScalesUpdate _ = False"

fun isServiceAccountReconcile :: "call \<Rightarrow> bool" where
  "isServiceAccountReconcile (KRReconcile _ (ServiceAccountObject _) _ _ _) = True"
| "isServiceAccountReconcile _ = False"

fun isRoleReconcile :: "call \<Rightarrow> bool" where
  "isRoleReconcile (KRReconcile _ (RoleObject _) _ _ _) = True"
| "isRoleReconcile _ = False"

fun isRoleBindingReconcile :: "call \<Rightarrow> bool" where
  "isRoleBindingReconcile (KRReconcile _ (RoleBindingObject _) _ _ _) = True"
| "isRoleBindingReconcile _ = False"

text \<open>The calls only the pause-override path makes, and those only the normal path makes.\<close>

fun pauseWork :: "call \<Rightarrow> bool" where
  "pauseWork (ClientDelete _) = True"
| "pauseWork (ScalesGet _ _ _) = True"
| "pauseWork (ScalesUpdate _ _ _) = True"
| "pauseWork _ = False"

fun normalWork :: "call \<Rightarrow> bool" where
  "normalWork (KRReconcile _ _ _ _ _) = True"
| "normalWork (KRPodCleanup _) = True"
| "normalWork _ = False"


fun submittedRoles :: "call list \<Rightarrow> Role list" where
  "submittedRoles [] = []"
| "submittedRoles (KRReconcile _ (RoleObject ro) _ _ _ # cs) = ro # submittedRoles cs"
| "submittedRoles (_ # cs) = submittedRoles cs"

text \<open>
  The resource with its six toggles written out: the four provisioning toggles true, the two
  role extensions false.
\<close>

definition explicitToggles :: "CustomPodAutoscaler \<Rightarrow> CustomPodAutoscaler" where
  "explicitToggles instance =
     instance\<lparr>Spec := (Spec instance)
       \<lparr>ProvisionRole := Some True, ProvisionRoleBinding := Some True,
        ProvisionServiceAccount := Some True, ProvisionPod := Some True,
        RoleRequiresMetricsServer := Some False, RoleRequiresArgoRollouts := Some False\<rparr>\<rparr>"

section \<open>A concrete cluster\<close>

text \<open>
  A resource \<^verbatim>\<open>prod/cpa\<close> scaling the deployment \<^verbatim>\<open>x\<close>, with two containers in its template
  and every toggle unset; and collaborators that always succeed, over a cluster state that
  counts the writes. The serialiser writes the three fields as JSON, for strings that need no
  escaping.
\<close>

definition exampleCPA :: CustomPodAutoscaler where
  "exampleCPA =
     \<lparr>CPATypeMeta = \<lparr>Kind = ''CustomPodAutoscaler'', APIVersion = ''custompodautoscaler.com/v1''\<rparr>,
      CPAObjectMeta = emptyObjectMeta\<lparr>Name := ''cpa'', Namespace := ''prod''\<rparr>,
      Spec =
        \<lparr>Template =
           \<lparr>TemplateObjectMeta = emptyObjectMeta,
            TemplateSpec =
              \<lparr>InitContainers = [],
               Containers =
                 [\<lparr>ContainerName = ''scaler'', Image = ''scaler:1'', Command = [], Env = None\<rparr>,
                  \<lparr>ContainerName = ''sidecar'', Image = ''sidecar:1'', Command = [''run''],
                   Env = Some [\<lparr>EnvName = ''interval'', EnvValue = ''5''\<rparr>]\<rparr>],
               RestartPolicy = ''Always'',
               ServiceAccountName = []\<rparr>\<rparr>,
         ScaleTargetRef = \<lparr>RefKind = ''Deployment'', RefName = ''x'', RefAPIVersion = ''apps/v1''\<rparr>,
         Config = [\<lparr>ConfigName = ''interval'', ConfigValue = ''30''\<rparr>],
         ProvisionRole = None,
         ProvisionRoleBinding = None,
         ProvisionServiceAccount = None,
         ProvisionPod = None,
         RoleRequiresMetricsServer = None,
         RoleRequiresArgoRollouts = None\<rparr>\<rparr>"

definition pausedCPA :: "string \<Rightarrow> CustomPodAutoscaler" where
  "pausedCPA v =
     exampleCPA\<lparr>CPAObjectMeta :=
       (CPAObjectMeta exampleCPA)\<lparr>Annotations := Some [PausedReplicasAnnotation \<mapsto> v]\<rparr>\<rparr>"

definition deletingCPA :: "string \<Rightarrow> CustomPodAutoscaler" where
  "deletingCPA v =
     (pausedCPA v)\<lparr>CPAObjectMeta :=
       (CPAObjectMeta (pausedCPA v))\<lparr>DeletionTimestamp := Some 1700000000\<rparr>\<rparr>"

definition noIdentityCPA :: "string \<Rightarrow> CustomPodAutoscaler" where
  "noIdentityCPA sa =
     exampleCPA\<lparr>Spec := (Spec exampleCPA)
       \<lparr>ProvisionServiceAccount := Some False,
        Template := (Template (Spec exampleCPA))
          \<lparr>TemplateSpec := (TemplateSpec (Template (Spec exampleCPA)))
             \<lparr>ServiceAccountName := sa\<rparr>\<rparr>\<rparr>\<rparr>"

definition extendedRoleCPA :: "bool \<Rightarrow> bool \<Rightarrow> CustomPodAutoscaler" where
  "extendedRoleCPA metrics argo =
     exampleCPA\<lparr>Spec := (Spec exampleCPA)
       \<lparr>RoleRequiresMetricsServer := Some metrics, RoleRequiresArgoRollouts := Some argo\<rparr>\<rparr>"

definition exampleRequest :: NamespacedName where
  "exampleRequest = \<lparr>ReqNamespace = ''prod'', ReqName = ''cpa''\<rparr>"

definition exampleScale :: Scale where
  "exampleScale =
     \<lparr>ScaleTypeMeta = \<lparr>Kind = ''Scale'', APIVersion = ''autoscaling/v1''\<rparr>,
      ScaleObjectMeta = emptyObjectMeta\<lparr>Name := ''x'', Namespace := ''prod''\<rparr>,
      ScaleSpec = \<lparr>Replicas = 7\<rparr>,
      ScaleStatus = \<lparr>StatusReplicas = 7, Selector = ''app=x''\<rparr>\<rparr>"

definition quoted :: "string \<Rightarrow> string" where
  "quoted s = CHR 0x22 # s @ [CHR 0x22]"

definition exampleMarshal :: "CrossVersionObjectReference \<Rightarrow> error + string" where
  "exampleMarshal ref =
     Inr (''{'' @ quoted ''kind'' @ '':'' @ quoted (RefKind ref) @ '','' @
          quoted ''name'' @ '':'' @ quoted (RefName ref) @
          (if RefAPIVersion ref = [] then []
           else '','' @ quoted ''apiVersion'' @ '':'' @ quoted (RefAPIVersion ref)) @ ''}'')"

definition exampleReconciler :: "CustomPodAutoscaler \<Rightarrow> nat CustomPodAutoscalerReconciler" where
  "exampleReconciler cr =
     \<lparr>Client_Get = (\<lambda>req w. (Inr cr, w)),
      Client_Delete = (\<lambda>i w. (None, Suc w)),
      Scales_Get = (\<lambda>ns gr n w. (Inr exampleScale, w)),
      Scales_Update = (\<lambda>ns gr sc w. (Inr sc, Suc w)),
      KRR_Reconcile = (\<lambda>i obj sp up k w. ((emptyResult, None), Suc w)),
      KRR_PodCleanup = (\<lambda>i w. (None, w)),
      json_Marshal = exampleMarshal\<rparr>"

section \<open>Facts about the helper functions\<close>

lemma precedes_iff:
  "precedes P Q xs \<longleftrightarrow> (\<forall>i < length xs. Q (xs ! i) \<longrightarrow> (\<exists>j < i. P (xs ! j)))"
proof (induction xs)
  case Nil
  show ?case by simp
next
  case (Cons x xs)
  show ?case
  proof (cases "P x")
    case True
    have "\<And>i. i < Suc (length xs) \<Longrightarrow> Q ((x # xs) ! i) \<Longrightarrow> \<not> Q x \<Longrightarrow> \<exists>j<i. P ((x # xs) ! j)"
      using True by (metis gr0I nth_Cons_0)
    then show ?thesis using True by auto
  next
    case False
    have "(\<forall>i < length (x # xs). Q ((x # xs) ! i) \<longrightarrow> (\<exists>j < i. P ((x # xs) ! j))) \<longleftrightarrow>
          (\<not> Q x \<and> (\<forall>i < length xs. Q (xs ! i) \<longrightarrow> (\<exists>j < i. P (xs ! j))))"
      (is "?L \<longleftrightarrow> ?R")
    proof
      assume L: ?L
      have nq: "\<not> Q x" using L by fastforce
      have "\<exists>j < i. P (xs ! j)" if "i < length xs" "Q (xs ! i)" for i
      proof -
        from L that obtain j where j: "j < Suc i" "P ((x # xs) ! j)" by fastforce
        with False obtain k where "j = Suc k" by (cases j) auto
        with j show ?thesis by auto
      qed
      with nq show ?R by blast
    next
      assume R: ?R
      show ?L
      proof (intro allI impI)
        fix i assume i: "i < length (x # xs)" "Q ((x # xs) ! i)"
        with R obtain k where k: "i = Suc k" by (cases i) auto
        with i R obtain j where "j < k" "P (xs ! j)" by auto
        then have "Suc j < i" "P ((x # xs) ! Suc j)" using k by auto
        then show "\<exists>j < i. P ((x # xs) ! j)" by blast
      qed
    qed
    with False Cons.IH show ?thesis by simp
  qed
qed

lemma precedes_none: "list_all (\<lambda>c. \<not> Q c) xs \<Longrightarrow> precedes P Q xs"
  by (induction xs) auto

lemma precedes_append_none:
  "list_all (\<lambda>c. \<not> Q c) ys \<Longrightarrow> precedes P Q (xs @ ys) = precedes P Q xs"
  by (induction xs) (auto simp add: list_all_iff intro: precedes_none)

lemma precedes_skip:
  "list_all (\<lambda>c. \<not> P c \<and> \<not> Q c) xs \<Longrightarrow> precedes P Q (xs @ ys) = precedes P Q ys"
  by (induction xs) auto

lemma pauseWork_cases:
  "isClientDelete c \<Longrightarrow> pauseWork c"
  "isScalesGet c \<Longrightarrow> pauseWork c"
  "isScalesUpdate c \<Longrightarrow> pauseWork c"
  by (cases c; simp)+

lemma normalWork_cases:
  "isServiceAccountReconcile c \<Longrightarrow> normalWork c"
  "isRoleReconcile c \<Longrightarrow> normalWork c"
  "isRoleBindingReconcile c \<Longrightarrow> normalWork c"
  by (cases c; simp)+


lemma submittedRoles_append:
  "submittedRoles (xs @ ys) = submittedRoles xs @ submittedRoles ys"
  by (induction xs rule: submittedRoles.induct) simp_all

lemma submittedRoles_none:
  "list_all (\<lambda>c. \<not> normalWork c) xs \<Longrightarrow> submittedRoles xs = []"
  by (induction xs rule: submittedRoles.induct) simp_all

section \<open>The parsed replica count\<close>

lemma ParseInt_range:
  assumes "ParseInt s = (n, None)"
  shows "- (2 ^ 31) \<le> n \<and> n < 2 ^ 31"
  using assms
  by (auto simp add: ParseInt_def Let_def split: if_splits prod.splits)

lemma sint_int32:
  assumes "- (2 ^ 31) \<le> n" and "n < 2 ^ 31"
  shows "sint (word_of_int n :: int32) = n"
  using assms by (simp add: sint_sbintrunc' signed_take_bit_int_eq_self)

section \<open>The defaults\<close>

lemma applyDefaults_frame:
  "CPATypeMeta (applyDefaults instance) = CPATypeMeta instance"
  "CPAObjectMeta (applyDefaults instance) = CPAObjectMeta instance"
  "Template (Spec (applyDefaults instance)) = Template (Spec instance)"
  "Config (Spec (applyDefaults instance)) = Config (Spec instance)"
  "ScaleTargetRef (Spec (applyDefaults instance)) = ScaleTargetRef (Spec instance)"
  by (simp_all add: applyDefaults_def Let_def)

lemma applyDefaults_toggles:
  "ProvisionRole (Spec (applyDefaults instance)) =
     Some (case ProvisionRole (Spec instance) of None \<Rightarrow> True | Some b \<Rightarrow> b)"
  "ProvisionRoleBinding (Spec (applyDefaults instance)) =
     Some (case ProvisionRoleBinding (Spec instance) of None \<Rightarrow> True | Some b \<Rightarrow> b)"
  "ProvisionServiceAccount (Spec (applyDefaults instance)) =
     Some (case ProvisionServiceAccount (Spec instance) of None \<Rightarrow> True | Some b \<Rightarrow> b)"
  "ProvisionPod (Spec (applyDefaults instance)) =
     Some (case ProvisionPod (Spec instance) of None \<Rightarrow> True | Some b \<Rightarrow> b)"
  "RoleRequiresMetricsServer (Spec (applyDefaults instance)) =
     Some (case RoleRequiresMetricsServer (Spec instance) of None \<Rightarrow> False | Some b \<Rightarrow> b)"
  "RoleRequiresArgoRollouts (Spec (applyDefaults instance)) =
     Some (case RoleRequiresArgoRollouts (Spec instance) of None \<Rightarrow> False | Some b \<Rightarrow> b)"
  by (auto simp add: applyDefaults_def Let_def split: option.splits)

lemma applyDefaults_explicitToggles:
  "applyDefaults (explicitToggles instance) = explicitToggles instance"
  by (simp add: applyDefaults_def explicitToggles_def)

lemma applyDefaults_unset:
  assumes "ProvisionRole (Spec instance) = None"
    and "ProvisionRoleBinding (Spec instance) = None"
    and "ProvisionServiceAccount (Spec instance) = None"
    and "ProvisionPod (Spec instance) = None"
    and "RoleRequiresMetricsServer (Spec instance) = None"
    and "RoleRequiresArgoRollouts (Spec instance) = None"
  shows "applyDefaults instance = explicitToggles instance"
  using assms by (simp add: applyDefaults_def explicitToggles_def)

section \<open>The injected environment\<close>





section \<open>The calls of each path\<close>

lemma pausePath_no_normalWork:
  "list_all (\<lambda>c. \<not> normalWork c) (calls st) \<Longrightarrow>
   list_all (\<lambda>c. \<not> normalWork c) (calls (snd (pausePath r instance s st)))"
  by (auto simp add: invoke_def pausePath_def Let_def
        split: prod.splits sum.splits option.splits)

lemma pausePath_deletes_instance:
  "ClientDelete i \<in> set (calls (snd (pausePath r instance s st))) \<Longrightarrow>
   ClientDelete i \<in> set (calls st) \<or> i = instance"
  by (auto simp add: invoke_def pausePath_def Let_def
        split: prod.splits sum.splits option.splits)

lemma provisionPod_calls_append:
  "calls (snd (provisionPod r instance s sa st)) =
     calls st @ calls (snd (provisionPod r instance s sa \<lparr>world = world st, calls = []\<rparr>))"
  by (auto simp add: invoke_def provisionPod_def Let_def split: prod.splits option.splits)

lemma provisionPod_no_pauseWork:
  "list_all (\<lambda>c. \<not> pauseWork c) (calls st) \<Longrightarrow>
   list_all (\<lambda>c. \<not> pauseWork c) (calls (snd (provisionPod r instance s sa st)))"
  by (auto simp add: invoke_def provisionPod_def Let_def
        split: prod.splits sum.splits option.splits)

lemma provisionPod_no_identity:
  "list_all (\<lambda>c. \<not> isServiceAccountReconcile c \<and> \<not> isRoleReconcile c \<and>
                  \<not> isRoleBindingReconcile c)
     (calls (snd (provisionPod r instance s sa \<lparr>world = v, calls = []\<rparr>)))"
  by (auto simp add: invoke_def provisionPod_def Let_def split: prod.splits option.splits)

lemma provisionPod_precedes:
  assumes "\<And>c. Q c \<Longrightarrow> isServiceAccountReconcile c \<or> isRoleReconcile c \<or> isRoleBindingReconcile c"
  shows "precedes P Q (calls (snd (provisionPod r instance s sa st))) = precedes P Q (calls st)"
proof -
  have "list_all (\<lambda>c. \<not> Q c)
          (calls (snd (provisionPod r instance s sa \<lparr>world = world st, calls = []\<rparr>)))"
    using provisionPod_no_identity [of r "instance" s sa "world st"] assms
    by (auto simp add: list_all_iff)
  then show ?thesis
    by (subst provisionPod_calls_append) (rule precedes_append_none)
qed

lemma provisionPod_identity_free:
  "list_all (\<lambda>c. \<not> isRoleReconcile c \<and> \<not> isRoleBindingReconcile c) (calls st) \<Longrightarrow>
   list_all (\<lambda>c. \<not> isRoleReconcile c \<and> \<not> isRoleBindingReconcile c)
     (calls (snd (provisionPod r instance s sa st)))"
  by (auto simp add: invoke_def provisionPod_def Let_def split: prod.splits option.splits)

lemma provisionPod_submittedRoles:
  "submittedRoles (calls (snd (provisionPod r instance s sa st))) = submittedRoles (calls st)"
  by (auto simp add: invoke_def provisionPod_def Let_def submittedRoles_append
        split: prod.splits option.splits)



lemma provisionPod_Client_Get:
  "provisionPod (r\<lparr>Client_Get := g\<rparr>) i s sa st = provisionPod r i s sa st"
  by (simp add: provisionPod_def)

lemma normalPath_Client_Get:
  "normalPath (r\<lparr>Client_Get := g\<rparr>) i st = normalPath r i st"
  by (simp add: normalPath_def provisionPod_Client_Get
        cong: sum.case_cong prod.case_cong option.case_cong if_cong)

lemma normalPath_applyDefaults:
  "applyDefaults a = applyDefaults b \<Longrightarrow> normalPath r a st = normalPath r b st"
  by (simp add: normalPath_def)

lemma normalPath_no_pauseWork:
  "list_all (\<lambda>c. \<not> pauseWork c) (calls st) \<Longrightarrow>
   list_all (\<lambda>c. \<not> pauseWork c) (calls (snd (normalPath r instance st)))"
  by (auto simp add: invoke_def normalPath_def Let_def
        intro!: provisionPod_no_pauseWork
        split: prod.splits sum.splits option.splits)


lemma normalPath_submittedRoles:
  assumes "ro \<in> set (submittedRoles (calls (snd (normalPath r instance st))))"
    and "submittedRoles (calls st) = []"
  shows "ro = role (applyDefaults instance)"
  using assms
  by (auto simp add: invoke_def normalPath_def Let_def submittedRoles_append
        provisionPod_submittedRoles
        split: prod.splits option.splits sum.splits if_splits)

lemma normalPath_order:
  assumes "list_all (\<lambda>c. \<not> normalWork c) (calls st)"
  shows "precedes isServiceAccountReconcile isRoleReconcile (calls (snd (normalPath r instance st))) \<and>
         precedes isRoleReconcile isRoleBindingReconcile (calls (snd (normalPath r instance st)))"
proof -
  have quiet: "list_all (\<lambda>c. \<not> isServiceAccountReconcile c \<and> \<not> isRoleReconcile c)  (calls st)"
    "list_all (\<lambda>c. \<not> isRoleReconcile c \<and> \<not> isRoleBindingReconcile c) (calls st)"
    using assms normalWork_cases by (auto simp add: list_all_iff)
  have skip:
    "precedes isServiceAccountReconcile isRoleReconcile (calls st @ ys) =
       precedes isServiceAccountReconcile isRoleReconcile ys"
    "precedes isRoleReconcile isRoleBindingReconcile (calls st @ ys) =
       precedes isRoleReconcile isRoleBindingReconcile ys" for ys
    using quiet by (simp_all add: precedes_skip)
  have start:
    "precedes isServiceAccountReconcile isRoleReconcile (calls st)"
    "precedes isRoleReconcile isRoleBindingReconcile (calls st)"
    using skip [of "[]"] by simp_all
  show ?thesis
    using start
    by (auto simp add: invoke_def normalPath_def Let_def provisionPod_precedes skip
          split: prod.splits option.splits sum.splits)
qed

lemma normalPath_identity_free:
  assumes "ProvisionServiceAccount (Spec instance) = Some False"
    and "list_all (\<lambda>c. \<not> isRoleReconcile c \<and> \<not> isRoleBindingReconcile c) (calls st)"
  shows "list_all (\<lambda>c. \<not> isRoleReconcile c \<and> \<not> isRoleBindingReconcile c)
           (calls (snd (normalPath r instance st)))"
  using assms
  by (auto simp add: normalPath_def Let_def applyDefaults_toggles
        intro!: provisionPod_identity_free split: sum.splits)

section \<open>The three ways on from a successful fetch\<close>

lemma Reconcile_fetched:
  assumes "Client_Get r req w = (Inr instance, w')"
  shows "Reconcile r req w = (Return emptyResult None, \<lparr>world = w', calls = [ClientGet req]\<rparr>) \<or>
         (\<exists>s. Reconcile r req w =
                pausePath r instance s \<lparr>world = w', calls = [ClientGet req]\<rparr>) \<or>
         Reconcile r req w = normalPath r instance \<lparr>world = w', calls = [ClientGet req]\<rparr>"
  using assms
  by (cases "DeletionTimestamp (CPAObjectMeta instance)";
      cases "GetAnnotations instance PausedReplicasAnnotation")
     (auto simp add: Reconcile_def invoke_def)

section \<open>Evaluating the concrete cluster\<close>

lemmas example_defs =
  exampleReconciler_def exampleCPA_def pausedCPA_def deletingCPA_def noIdentityCPA_def
  extendedRoleCPA_def exampleRequest_def exampleScale_def exampleMarshal_def quoted_def
  emptyObjectMeta_def emptyResult_def explicitToggles_def

lemmas run_defs =
  Reconcile_def pausePath_def normalPath_def provisionPod_def invoke_def GetAnnotations_def
  PausedReplicasAnnotation_def IsNotFound_def NewBadRequest_def Let_def applyDefaults_def
  serviceAccount_def

lemmas parse_defs =
  ParseInt_def ParseUint_def digit_def maxVal_def cutoff64_def ParseGroupVersion_def

section \<open>The claims\<close>

text \<open>
  C1. On the pause-override path the declared resource is deleted before the scale target is
  read or updated, and the scale target is read before it is updated. In the log of every
  invocation each scale get and each scale update has a delete before it, and each scale
  update has a scale get before it; and when the fetched resource has no deletion timestamp
  and carries a pause annotation that parses, the delete of that resource is the first call
  after the fetch.
\<close>

theorem C1_pause_delete_before_scale:
  "precedes isClientDelete isScalesGet (calls (snd (Reconcile r req w))) \<and>
   precedes isClientDelete isScalesUpdate (calls (snd (Reconcile r req w))) \<and>
   precedes isScalesGet isScalesUpdate (calls (snd (Reconcile r req w))) \<and>
   (Client_Get r req w = (Inr instance, w') \<longrightarrow>
    DeletionTimestamp (CPAObjectMeta instance) = None \<longrightarrow>
    GetAnnotations instance PausedReplicasAnnotation = Some s \<longrightarrow>
    ParseInt s = (n, None) \<longrightarrow>
    take 2 (calls (snd (Reconcile r req w))) = [ClientGet req, ClientDelete instance])"
proof -
  have normal:
    "precedes P Q (calls (snd (normalPath r i \<lparr>world = v, calls = [ClientGet req]\<rparr>)))"
    if "\<And>c. Q c \<Longrightarrow> pauseWork c" for P Q i v
  proof (rule precedes_none)
    have "list_all (\<lambda>c. \<not> pauseWork c)
            (calls (snd (normalPath r i \<lparr>world = v, calls = [ClientGet req]\<rparr>)))"
      by (rule normalPath_no_pauseWork) simp
    then show "list_all (\<lambda>c. \<not> Q c)
            (calls (snd (normalPath r i \<lparr>world = v, calls = [ClientGet req]\<rparr>)))"
      using that by (auto simp add: list_all_iff)
  qed
  have pause:
    "precedes isClientDelete isScalesGet
       (calls (snd (pausePath r i s' \<lparr>world = v, calls = [ClientGet req]\<rparr>))) \<and>
     precedes isClientDelete isScalesUpdate
       (calls (snd (pausePath r i s' \<lparr>world = v, calls = [ClientGet req]\<rparr>))) \<and>
     precedes isScalesGet isScalesUpdate
       (calls (snd (pausePath r i s' \<lparr>world = v, calls = [ClientGet req]\<rparr>)))" for i s' v
    by (auto simp add: invoke_def pausePath_def Let_def
          split: prod.splits sum.splits option.splits)
  have order:
    "precedes isClientDelete isScalesGet (calls (snd (Reconcile r req w))) \<and>
     precedes isClientDelete isScalesUpdate (calls (snd (Reconcile r req w))) \<and>
     precedes isScalesGet isScalesUpdate (calls (snd (Reconcile r req w)))"
    using pause normal [of isScalesGet isClientDelete] normal [of isScalesUpdate isScalesGet]
      normal [of isScalesUpdate isClientDelete]
    by (auto simp add: Reconcile_def invoke_def pauseWork_cases
          split: prod.splits sum.splits option.splits)
  have first:
    "take 2 (calls (snd (Reconcile r req w))) = [ClientGet req, ClientDelete instance]"
    if "Client_Get r req w = (Inr instance, w')"
      and "DeletionTimestamp (CPAObjectMeta instance) = None"
      and "GetAnnotations instance PausedReplicasAnnotation = Some s"
      and "ParseInt s = (n, None)"
    using that
    by (auto simp add: Reconcile_def invoke_def pausePath_def Let_def
          split: prod.splits sum.splits option.splits)
  from order first show ?thesis by blast
qed

theorem C1_pause_delete_before_scale_witness:
  "Client_Get (exampleReconciler (pausedCPA ''3'')) exampleRequest 0 = (Inr (pausedCPA ''3''), 0) \<and>
   DeletionTimestamp (CPAObjectMeta (pausedCPA ''3'')) = None \<and>
   GetAnnotations (pausedCPA ''3'') PausedReplicasAnnotation = Some ''3'' \<and>
   ParseInt ''3'' = (3, None) \<and>
   precedes isClientDelete isScalesGet
     (calls (snd (Reconcile (exampleReconciler (pausedCPA ''3'')) exampleRequest 0))) \<and>
   precedes isClientDelete isScalesUpdate
     (calls (snd (Reconcile (exampleReconciler (pausedCPA ''3'')) exampleRequest 0))) \<and>
   precedes isScalesGet isScalesUpdate
     (calls (snd (Reconcile (exampleReconciler (pausedCPA ''3'')) exampleRequest 0))) \<and>
   take 2 (calls (snd (Reconcile (exampleReconciler (pausedCPA ''3'')) exampleRequest 0))) =
     [ClientGet exampleRequest, ClientDelete (pausedCPA ''3'')] \<and>
   map isScalesUpdate (calls (snd (Reconcile (exampleReconciler (pausedCPA ''3'')) exampleRequest 0))) =
     [False, False, False, True]"
proof -
  have h1: "Client_Get (exampleReconciler (pausedCPA ''3'')) exampleRequest 0 =
              (Inr (pausedCPA ''3''), 0)"
    by (simp add: exampleReconciler_def)
  have h2: "DeletionTimestamp (CPAObjectMeta (pausedCPA ''3'')) = None"
    by (simp add: example_defs)
  have h3: "GetAnnotations (pausedCPA ''3'') PausedReplicasAnnotation = Some ''3''"
    by (simp add: example_defs GetAnnotations_def)
  have h4: "ParseInt ''3'' = (3, None)"
    by (simp add: parse_defs)
  have run: "map isScalesUpdate
      (calls (snd (Reconcile (exampleReconciler (pausedCPA ''3'')) exampleRequest 0))) =
      [False, False, False, True]"
    by (simp add: run_defs example_defs parse_defs)
  show ?thesis
    using C1_pause_delete_before_scale
            [of "exampleReconciler (pausedCPA ''3'')" exampleRequest 0 "pausedCPA ''3''" 0 "''3''" 3]
          h1 h2 h3 h4 run
    by simp
qed

text \<open>
  C2. The claim: for every resource whose pause annotation does not parse as a base-10 signed
  32-bit integer, Reconcile returns an error and mutates nothing. A resource that is being
  deleted is answered before the annotation is looked at: with the annotation \<^verbatim>\<open>abc\<close> and a
  deletion timestamp, Reconcile returns no error.
\<close>

theorem C2_malformed_pause_counterexample:
  "GetAnnotations (deletingCPA ''abc'') PausedReplicasAnnotation = Some ''abc'' \<and>
   snd (ParseInt ''abc'') = Some (NumError ''ParseInt'' ''abc'' ErrSyntax) \<and>
   fst (Reconcile (exampleReconciler (deletingCPA ''abc'')) exampleRequest 0) =
     Return emptyResult None"
  by (simp add: run_defs example_defs parse_defs)

text \<open>
  C2, amended. For every fetched resource whose pause annotation does not parse as a base-10
  signed 32-bit integer, Reconcile makes no call besides the fetch: the resource is not deleted
  and the scale target is neither read nor updated. It returns the parse error when the
  resource has no deletion timestamp, and success when it has one.
\<close>

theorem C2_malformed_pause_no_mutation:
  assumes "Client_Get r req w = (Inr instance, w')"
    and "GetAnnotations instance PausedReplicasAnnotation = Some s"
    and "ParseInt s = (n, Some e)"
  shows "snd (Reconcile r req w) = \<lparr>world = w', calls = [ClientGet req]\<rparr> \<and>
         fst (Reconcile r req w) =
           (if DeletionTimestamp (CPAObjectMeta instance) = None
            then Return emptyResult (Some e) else Return emptyResult None)"
  using assms by (simp add: Reconcile_def invoke_def pausePath_def)

theorem C2_malformed_pause_no_mutation_witness:
  "Client_Get (exampleReconciler (pausedCPA ''abc'')) exampleRequest 0 =
     (Inr (pausedCPA ''abc''), 0) \<and>
   GetAnnotations (pausedCPA ''abc'') PausedReplicasAnnotation = Some ''abc'' \<and>
   ParseInt ''abc'' = (0, Some (NumError ''ParseInt'' ''abc'' ErrSyntax)) \<and>
   snd (Reconcile (exampleReconciler (pausedCPA ''abc'')) exampleRequest 0) =
     \<lparr>world = 0, calls = [ClientGet exampleRequest]\<rparr> \<and>
   fst (Reconcile (exampleReconciler (pausedCPA ''abc'')) exampleRequest 0) =
     Return emptyResult (Some (NumError ''ParseInt'' ''abc'' ErrSyntax))"
proof -
  have h1: "Client_Get (exampleReconciler (pausedCPA ''abc'')) exampleRequest 0 =
              (Inr (pausedCPA ''abc''), 0)"
    by (simp add: exampleReconciler_def)
  have h2: "GetAnnotations (pausedCPA ''abc'') PausedReplicasAnnotation = Some ''abc''"
    by (simp add: example_defs GetAnnotations_def)
  have h3: "ParseInt ''abc'' = (0, Some (NumError ''ParseInt'' ''abc'' ErrSyntax))"
    by (simp add: parse_defs)
  have h4: "DeletionTimestamp (CPAObjectMeta (pausedCPA ''abc'')) = None"
    by (simp add: example_defs)
  show ?thesis
    using C2_malformed_pause_no_mutation [OF h1 h2 h3] h1 h2 h3 h4 by simp
qed

text \<open>
  C3. On the normal path, with provisionServiceAccount explicitly false and no service
  account name in the template, Reconcile makes no call besides the fetch, so nothing
  reaches the object reconciler and the cluster is as the fetch left it; and it returns the
  bad-request error (the serialisation of the scale target reference, which comes first,
  having succeeded).
\<close>

theorem C3_missing_service_account_fails_first:
  assumes "Client_Get r req w = (Inr instance, w')"
    and "DeletionTimestamp (CPAObjectMeta instance) = None"
    and "GetAnnotations instance PausedReplicasAnnotation = None"
    and "ProvisionServiceAccount (Spec instance) = Some False"
    and "ServiceAccountName (TemplateSpec (Template (Spec instance))) = []"
  shows "snd (Reconcile r req w) = \<lparr>world = w', calls = [ClientGet req]\<rparr> \<and>
         (\<forall>s. json_Marshal r (ScaleTargetRef (Spec instance)) = Inr s \<longrightarrow>
            fst (Reconcile r req w) =
              Return emptyResult
                (Some (NewBadRequest
                   ''ServiceAccount not provided in the CustomPodAutoscaler spec'')))"
  using assms
  by (auto simp add: Reconcile_def invoke_def normalPath_def serviceAccount_def
        applyDefaults_frame applyDefaults_toggles Let_def split: sum.splits)

theorem C3_missing_service_account_fails_first_witness:
  "Client_Get (exampleReconciler (noIdentityCPA [])) exampleRequest 0 =
     (Inr (noIdentityCPA []), 0) \<and>
   DeletionTimestamp (CPAObjectMeta (noIdentityCPA [])) = None \<and>
   GetAnnotations (noIdentityCPA []) PausedReplicasAnnotation = None \<and>
   ProvisionServiceAccount (Spec (noIdentityCPA [])) = Some False \<and>
   ServiceAccountName (TemplateSpec (Template (Spec (noIdentityCPA [])))) = [] \<and>
   snd (Reconcile (exampleReconciler (noIdentityCPA [])) exampleRequest 0) =
     \<lparr>world = 0, calls = [ClientGet exampleRequest]\<rparr> \<and>
   fst (Reconcile (exampleReconciler (noIdentityCPA [])) exampleRequest 0) =
     Return emptyResult
       (Some (NewBadRequest ''ServiceAccount not provided in the CustomPodAutoscaler spec''))"
proof -
  have h1: "Client_Get (exampleReconciler (noIdentityCPA [])) exampleRequest 0 =
              (Inr (noIdentityCPA []), 0)"
    by (simp add: exampleReconciler_def)
  have h2: "DeletionTimestamp (CPAObjectMeta (noIdentityCPA [])) = None"
    by (simp add: example_defs)
  have h3: "GetAnnotations (noIdentityCPA []) PausedReplicasAnnotation = None"
    by (simp add: example_defs GetAnnotations_def)
  have h4: "ProvisionServiceAccount (Spec (noIdentityCPA [])) = Some False"
    by (simp add: example_defs)
  have h5: "ServiceAccountName (TemplateSpec (Template (Spec (noIdentityCPA [])))) = []"
    by (simp add: example_defs)
  have h6: "\<exists>s. json_Marshal (exampleReconciler (noIdentityCPA []))
              (ScaleTargetRef (Spec (noIdentityCPA []))) = Inr s"
    by (simp add: exampleReconciler_def exampleMarshal_def)
  show ?thesis
    using C3_missing_service_account_fails_first [OF h1 h2 h3 h4 h5] h1 h2 h3 h4 h5 h6
    by auto
qed



text \<open>
  C5. In the log of every invocation the role is handed to the object reconciler only after
  the service account, and the role binding only after the role. When the fetched resource has
  provisionServiceAccount explicitly false, neither the role nor the role binding is handed
  over at all.
\<close>

theorem C5_identity_role_binding_order:
  assumes "Client_Get r req w = (Inr instance, w')"
  shows "precedes isServiceAccountReconcile isRoleReconcile (calls (snd (Reconcile r req w))) \<and>
         precedes isRoleReconcile isRoleBindingReconcile (calls (snd (Reconcile r req w))) \<and>
         (ProvisionServiceAccount (Spec instance) = Some False \<longrightarrow>
            list_all (\<lambda>c. \<not> isRoleReconcile c \<and> \<not> isRoleBindingReconcile c)
              (calls (snd (Reconcile r req w))))"
proof -
  let ?st = "\<lparr>world = w', calls = [ClientGet req]\<rparr>"
  have quiet: "list_all (\<lambda>c. \<not> normalWork c) (calls ?st)" by simp
  consider
      (deleted) "Reconcile r req w = (Return emptyResult None, ?st)"
    | (paused) s where "Reconcile r req w = pausePath r instance s ?st"
    | (normal) "Reconcile r req w = normalPath r instance ?st"
    using Reconcile_fetched [OF assms] by blast
  then show ?thesis
  proof cases
    case deleted
    then show ?thesis by simp
  next
    case paused
    have "list_all (\<lambda>c. \<not> normalWork c) (calls (snd (Reconcile r req w)))"
      unfolding paused using quiet by (rule pausePath_no_normalWork)
    then have none:
      "list_all (\<lambda>c. \<not> isRoleReconcile c) (calls (snd (Reconcile r req w)))"
      "list_all (\<lambda>c. \<not> isRoleBindingReconcile c) (calls (snd (Reconcile r req w)))"
      using normalWork_cases by (auto simp add: list_all_iff)
    then show ?thesis
      by (auto simp add: precedes_none list_all_iff)
  next
    case normal
    have "ProvisionServiceAccount (Spec instance) = Some False \<Longrightarrow>
          list_all (\<lambda>c. \<not> isRoleReconcile c \<and> \<not> isRoleBindingReconcile c)
            (calls (snd (normalPath r instance ?st)))"
      by (rule normalPath_identity_free) simp_all
    with normalPath_order [OF quiet, of r "instance"] show ?thesis
      unfolding normal by blast
  qed
qed

theorem C5_identity_role_binding_order_witness:
  "precedes isServiceAccountReconcile isRoleReconcile
     (calls (snd (Reconcile (exampleReconciler exampleCPA) exampleRequest 0))) \<and>
   precedes isRoleReconcile isRoleBindingReconcile
     (calls (snd (Reconcile (exampleReconciler exampleCPA) exampleRequest 0))) \<and>
   map isRoleBindingReconcile
     (calls (snd (Reconcile (exampleReconciler exampleCPA) exampleRequest 0))) =
     [False, False, False, True, False, False] \<and>
   ProvisionServiceAccount (Spec (noIdentityCPA ''external'')) = Some False \<and>
   list_all (\<lambda>c. \<not> isRoleReconcile c \<and> \<not> isRoleBindingReconcile c)
     (calls (snd (Reconcile (exampleReconciler (noIdentityCPA ''external'')) exampleRequest 0))) \<and>
   length (calls (snd (Reconcile (exampleReconciler (noIdentityCPA ''external''))
     exampleRequest 0))) = 3"
proof -
  have h1: "Client_Get (exampleReconciler exampleCPA) exampleRequest 0 = (Inr exampleCPA, 0)"
    by (simp add: exampleReconciler_def)
  have h2: "Client_Get (exampleReconciler (noIdentityCPA ''external'')) exampleRequest 0 =
              (Inr (noIdentityCPA ''external''), 0)"
    by (simp add: exampleReconciler_def)
  have h3: "ProvisionServiceAccount (Spec (noIdentityCPA ''external'')) = Some False"
    by (simp add: example_defs)
  have run1: "map isRoleBindingReconcile
      (calls (snd (Reconcile (exampleReconciler exampleCPA) exampleRequest 0))) =
      [False, False, False, True, False, False]"
    by (simp add: run_defs example_defs)
  have run2: "length (calls (snd (Reconcile (exampleReconciler (noIdentityCPA ''external''))
      exampleRequest 0))) = 3"
    by (simp add: run_defs example_defs)
  show ?thesis
    using C5_identity_role_binding_order [OF h1] C5_identity_role_binding_order [OF h2]
      h3 run1 run2
    by simp
qed

text \<open>
  C6. Every role handed to the object reconciler has the two baseline rule blocks (the core
  group with pods and replication controllers, the apps group with deployments, replica sets
  and stateful sets, each with its scale subresource); roleRequiresMetricsServer set to true
  appends exactly one block for the three metrics API groups, roleRequiresArgoRollouts set to
  true appends exactly one block for the Argo rollouts; a toggle that is false or unset
  appends nothing.
\<close>

theorem C6_role_rules:
  assumes "Client_Get r req w = (Inr instance, w')"
    and "ro \<in> set (submittedRoles (calls (snd (Reconcile r req w))))"
  shows "Rules ro =
           [\<lparr>APIGroups = [[]],
             Resources = [''pods'', ''replicationcontrollers'', ''replicationcontrollers/scale''],
             Verbs = [''*'']\<rparr>,
            \<lparr>APIGroups = [''apps''],
             Resources = [''deployments'', ''deployments/scale'', ''replicasets'',
                          ''replicasets/scale'', ''statefulsets'', ''statefulsets/scale''],
             Verbs = [''*'']\<rparr>] @
           (if RoleRequiresMetricsServer (Spec instance) = Some True
            then [\<lparr>APIGroups = [''metrics.k8s.io'', ''custom.metrics.k8s.io'',
                                 ''external.metrics.k8s.io''],
                    Resources = [''*''], Verbs = [''*'']\<rparr>]
            else []) @
           (if RoleRequiresArgoRollouts (Spec instance) = Some True
            then [\<lparr>APIGroups = [''argoproj.io''],
                    Resources = [''rollouts'', ''rollouts/scale''], Verbs = [''*'']\<rparr>]
            else [])"
proof -
  let ?st = "\<lparr>world = w', calls = [ClientGet req]\<rparr>"
  have quiet: "list_all (\<lambda>c. \<not> normalWork c) (calls ?st)" by simp
  consider
      (deleted) "Reconcile r req w = (Return emptyResult None, ?st)"
    | (paused) s where "Reconcile r req w = pausePath r instance s ?st"
    | (normal) "Reconcile r req w = normalPath r instance ?st"
    using Reconcile_fetched [OF assms(1)] by blast
  then have "ro = role (applyDefaults instance)"
  proof cases
    case deleted
    with assms(2) show ?thesis by simp
  next
    case paused
    have "submittedRoles (calls (snd (Reconcile r req w))) = []"
      unfolding paused using quiet
      by (intro submittedRoles_none pausePath_no_normalWork)
    with assms(2) show ?thesis by simp
  next
    case normal
    with assms(2) show ?thesis
      by (auto dest: normalPath_submittedRoles)
  qed
  then show ?thesis
    by (cases "RoleRequiresMetricsServer (Spec instance)";
        cases "RoleRequiresArgoRollouts (Spec instance)")
       (auto simp add: role_def Let_def applyDefaults_toggles)
qed

theorem C6_role_rules_witness:
  "map (\<lambda>ro. map APIGroups (Rules ro))
     (submittedRoles (calls (snd (Reconcile (exampleReconciler exampleCPA) exampleRequest 0)))) =
     [[[[]], [''apps'']]] \<and>
   map (\<lambda>ro. map APIGroups (Rules ro))
     (submittedRoles (calls (snd (Reconcile (exampleReconciler (extendedRoleCPA True True))
        exampleRequest 0)))) =
     [[[[]], [''apps''],
       [''metrics.k8s.io'', ''custom.metrics.k8s.io'', ''external.metrics.k8s.io''],
       [''argoproj.io'']]]"
proof -
  have h1: "Client_Get (exampleReconciler exampleCPA) exampleRequest 0 = (Inr exampleCPA, 0)"
    by (simp add: exampleReconciler_def)
  have h2: "Client_Get (exampleReconciler (extendedRoleCPA True True)) exampleRequest 0 =
              (Inr (extendedRoleCPA True True), 0)"
    by (simp add: exampleReconciler_def)
  have "length (submittedRoles
          (calls (snd (Reconcile (exampleReconciler exampleCPA) exampleRequest 0)))) = 1"
    by (simp add: run_defs example_defs)
  then obtain ro1 where ro1:
    "submittedRoles (calls (snd (Reconcile (exampleReconciler exampleCPA) exampleRequest 0))) = [ro1]"
    by (auto simp add: length_Suc_conv)
  have "length (submittedRoles
          (calls (snd (Reconcile (exampleReconciler (extendedRoleCPA True True))
             exampleRequest 0)))) = 1"
    by (simp add: run_defs example_defs)
  then obtain ro2 where ro2:
    "submittedRoles (calls (snd (Reconcile (exampleReconciler (extendedRoleCPA True True))
        exampleRequest 0))) = [ro2]"
    by (auto simp add: length_Suc_conv)
  have "map APIGroups (Rules ro1) = [[[]], [''apps'']]"
    using C6_role_rules [OF h1, of ro1] ro1 by (simp add: example_defs)
  moreover have "map APIGroups (Rules ro2) =
      [[[]], [''apps''],
       [''metrics.k8s.io'', ''custom.metrics.k8s.io'', ''external.metrics.k8s.io''],
       [''argoproj.io'']]"
    using C6_role_rules [OF h2, of ro2] ro2 by (simp add: example_defs)
  ultimately show ?thesis
    unfolding ro1 ro2 by simp
qed

text \<open>
  C7. A resource on the normal path with its six toggles unset is reconciled exactly as the
  same resource with provisionServiceAccount, provisionRole, provisionRoleBinding and
  provisionPod explicitly true and roleRequiresMetricsServer and roleRequiresArgoRollouts
  explicitly false: whichever of the two the client returns, Reconcile gives the same
  outcome, makes the same calls with the same arguments and leaves the same cluster.
\<close>

theorem C7_unset_toggles_default:
  assumes "ProvisionRole (Spec instance) = None"
    and "ProvisionRoleBinding (Spec instance) = None"
    and "ProvisionServiceAccount (Spec instance) = None"
    and "ProvisionPod (Spec instance) = None"
    and "RoleRequiresMetricsServer (Spec instance) = None"
    and "RoleRequiresArgoRollouts (Spec instance) = None"
    and "DeletionTimestamp (CPAObjectMeta instance) = None"
    and "GetAnnotations instance PausedReplicasAnnotation = None"
    and "Client_Get r req w = (Inr instance, w')"
    and "g req w = (Inr (explicitToggles instance), w')"
  shows "Reconcile (r\<lparr>Client_Get := g\<rparr>) req w = Reconcile r req w"
proof -
  have a: "DeletionTimestamp (CPAObjectMeta (explicitToggles instance)) = None"
    using assms(7) by (simp add: explicitToggles_def)
  have b: "GetAnnotations (explicitToggles instance) PausedReplicasAnnotation = None"
    using assms(8) by (simp add: explicitToggles_def GetAnnotations_def)
  have "Reconcile (r\<lparr>Client_Get := g\<rparr>) req w
          = normalPath r (explicitToggles instance) \<lparr>world = w', calls = [ClientGet req]\<rparr>"
    using a b assms(10) by (simp add: Reconcile_def invoke_def normalPath_Client_Get)
  also have "\<dots> = normalPath r instance \<lparr>world = w', calls = [ClientGet req]\<rparr>"
    by (rule normalPath_applyDefaults)
       (simp add: applyDefaults_explicitToggles applyDefaults_unset [OF assms(1-6)])
  also have "\<dots> = Reconcile r req w"
    using assms(7-9) by (simp add: Reconcile_def invoke_def)
  finally show ?thesis .
qed

theorem C7_unset_toggles_default_witness:
  "Reconcile ((exampleReconciler exampleCPA)
      \<lparr>Client_Get := \<lambda>q v. (Inr (explicitToggles exampleCPA), v)\<rparr>) exampleRequest 0 =
     Reconcile (exampleReconciler exampleCPA) exampleRequest 0 \<and>
   ProvisionRole (Spec exampleCPA) = None \<and>
   ProvisionRole (Spec (explicitToggles exampleCPA)) = Some True \<and>
   length (calls (snd (Reconcile (exampleReconciler exampleCPA) exampleRequest 0))) = 6"
proof -
  have t: "ProvisionRole (Spec exampleCPA) = None"
    "ProvisionRoleBinding (Spec exampleCPA) = None"
    "ProvisionServiceAccount (Spec exampleCPA) = None"
    "ProvisionPod (Spec exampleCPA) = None"
    "RoleRequiresMetricsServer (Spec exampleCPA) = None"
    "RoleRequiresArgoRollouts (Spec exampleCPA) = None"
    "DeletionTimestamp (CPAObjectMeta exampleCPA) = None"
    by (simp_all add: exampleCPA_def emptyObjectMeta_def)
  have n: "GetAnnotations exampleCPA PausedReplicasAnnotation = None"
    by (simp add: exampleCPA_def emptyObjectMeta_def GetAnnotations_def)
  have f: "Client_Get (exampleReconciler exampleCPA) exampleRequest 0 = (Inr exampleCPA, 0)"
    by (simp add: exampleReconciler_def)
  have e: "ProvisionRole (Spec (explicitToggles exampleCPA)) = Some True"
    by (simp add: explicitToggles_def)
  have run: "length (calls (snd (Reconcile (exampleReconciler exampleCPA) exampleRequest 0))) = 6"
    by (simp add: run_defs example_defs)
  show ?thesis
    using C7_unset_toggles_default
            [OF t n f, where g = "\<lambda>q v. (Inr (explicitToggles exampleCPA), v)"]
          t(1) e run
    by simp
qed

text \<open>
  C8. The claim: every invocation executes exactly one of the two paths, the pause-override
  path whenever the pause annotation is present. A resource with a deletion timestamp and the
  annotation \<^verbatim>\<open>3\<close> is answered after the fetch alone: the four calls of the pause-override
  path are not made, nor the six of the normal path.
\<close>

theorem C8_one_path_counterexample:
  "GetAnnotations (deletingCPA ''3'') PausedReplicasAnnotation = Some ''3'' \<and>
   calls (snd (Reconcile (exampleReconciler (deletingCPA ''3'')) exampleRequest 0)) =
     [ClientGet exampleRequest] \<and>
   length (calls (snd (pausePath (exampleReconciler (deletingCPA ''3'')) (deletingCPA ''3'') ''3''
     \<lparr>world = 0, calls = [ClientGet exampleRequest]\<rparr>))) = 4 \<and>
   length (calls (snd (normalPath (exampleReconciler (deletingCPA ''3'')) (deletingCPA ''3'')
     \<lparr>world = 0, calls = [ClientGet exampleRequest]\<rparr>))) = 6"
  by (simp add: run_defs example_defs parse_defs)

text \<open>
  C8, amended. Every invocation that fetches the resource and finds no deletion timestamp
  executes exactly one of the two paths. If the pause annotation is present, the invocation is
  the pause-override path: it makes no call to the object reconciler or to the pod cleanup,
  and the resource it deletes is the fetched one, without defaults applied. Otherwise the
  invocation is the normal path: it makes no delete, no scale get and no scale update. When
  the fetch fails or the resource has a deletion timestamp, neither path runs: the fetch is
  the only call, the cluster is as the fetch left it, and Reconcile returns the empty result,
  with the fetch error unless that error is not-found.
\<close>

theorem C8_one_path:
  assumes "Client_Get r req w = (res, w')"
  shows "(\<forall>err. res = Inl err \<longrightarrow>
            Reconcile r req w =
              (Return emptyResult (if IsNotFound err then None else Some err),
               \<lparr>world = w', calls = [ClientGet req]\<rparr>)) \<and>
         (\<forall>instance. res = Inr instance \<longrightarrow>
            (DeletionTimestamp (CPAObjectMeta instance) \<noteq> None \<longrightarrow>
               Reconcile r req w =
                 (Return emptyResult None, \<lparr>world = w', calls = [ClientGet req]\<rparr>)) \<and>
            (DeletionTimestamp (CPAObjectMeta instance) = None \<longrightarrow>
               (\<forall>s. GetAnnotations instance PausedReplicasAnnotation = Some s \<longrightarrow>
                  Reconcile r req w =
                    pausePath r instance s \<lparr>world = w', calls = [ClientGet req]\<rparr> \<and>
                  list_all (\<lambda>c. \<not> normalWork c) (calls (snd (Reconcile r req w))) \<and>
                  (\<forall>i. ClientDelete i \<in> set (calls (snd (Reconcile r req w))) \<longrightarrow>
                     i = instance)) \<and>
               (GetAnnotations instance PausedReplicasAnnotation = None \<longrightarrow>
                  Reconcile r req w =
                    normalPath r instance \<lparr>world = w', calls = [ClientGet req]\<rparr> \<and>
                  list_all (\<lambda>c. \<not> pauseWork c) (calls (snd (Reconcile r req w))))))"
proof (intro conjI allI impI)
  fix err assume "res = Inl err"
  then show "Reconcile r req w =
      (Return emptyResult (if IsNotFound err then None else Some err),
       \<lparr>world = w', calls = [ClientGet req]\<rparr>)"
    using assms by (simp add: Reconcile_def invoke_def)
next
  fix i assume "res = Inr i" and "DeletionTimestamp (CPAObjectMeta i) \<noteq> None"
  then show "Reconcile r req w =
      (Return emptyResult None, \<lparr>world = w', calls = [ClientGet req]\<rparr>)"
    using assms by (simp add: Reconcile_def invoke_def)
next
  fix i s
  assume live: "res = Inr i" "DeletionTimestamp (CPAObjectMeta i) = None"
    and s: "GetAnnotations i PausedReplicasAnnotation = Some s"
  show eq: "Reconcile r req w = pausePath r i s \<lparr>world = w', calls = [ClientGet req]\<rparr>"
    using assms live s by (simp add: Reconcile_def invoke_def)
  show "list_all (\<lambda>c. \<not> normalWork c) (calls (snd (Reconcile r req w)))"
    unfolding eq by (rule pausePath_no_normalWork) simp
  fix j assume "ClientDelete j \<in> set (calls (snd (Reconcile r req w)))"
  then show "j = i"
    unfolding eq by (auto dest: pausePath_deletes_instance)
next
  fix i
  assume live: "res = Inr i" "DeletionTimestamp (CPAObjectMeta i) = None"
    and n: "GetAnnotations i PausedReplicasAnnotation = None"
  show eq: "Reconcile r req w = normalPath r i \<lparr>world = w', calls = [ClientGet req]\<rparr>"
    using assms live n by (simp add: Reconcile_def invoke_def)
  show "list_all (\<lambda>c. \<not> pauseWork c) (calls (snd (Reconcile r req w)))"
    unfolding eq by (rule normalPath_no_pauseWork) simp
qed

theorem C8_one_path_witness:
  "Reconcile ((exampleReconciler exampleCPA)
      \<lparr>Client_Get := \<lambda>q v. (Inl (StatusNotFound ''cpa''), v)\<rparr>) exampleRequest 0 =
     (Return emptyResult None, \<lparr>world = 0, calls = [ClientGet exampleRequest]\<rparr>) \<and>
   Reconcile ((exampleReconciler exampleCPA)
      \<lparr>Client_Get := \<lambda>q v. (Inl (ErrOther ''timeout''), v)\<rparr>) exampleRequest 0 =
     (Return emptyResult (Some (ErrOther ''timeout'')),
      \<lparr>world = 0, calls = [ClientGet exampleRequest]\<rparr>) \<and>
   DeletionTimestamp (CPAObjectMeta (deletingCPA ''3'')) = Some 1700000000 \<and>
   Reconcile (exampleReconciler (deletingCPA ''3'')) exampleRequest 0 =
     (Return emptyResult None, \<lparr>world = 0, calls = [ClientGet exampleRequest]\<rparr>) \<and>
   GetAnnotations (pausedCPA ''3'') PausedReplicasAnnotation = Some ''3'' \<and>
   list_all (\<lambda>c. \<not> normalWork c)
     (calls (snd (Reconcile (exampleReconciler (pausedCPA ''3'')) exampleRequest 0))) \<and>
   map pauseWork (calls (snd (Reconcile (exampleReconciler (pausedCPA ''3'')) exampleRequest 0))) =
     [False, True, True, True] \<and>
   GetAnnotations exampleCPA PausedReplicasAnnotation = None \<and>
   list_all (\<lambda>c. \<not> pauseWork c)
     (calls (snd (Reconcile (exampleReconciler exampleCPA) exampleRequest 0))) \<and>
   map normalWork (calls (snd (Reconcile (exampleReconciler exampleCPA) exampleRequest 0))) =
     [False, True, True, True, True, True]"
proof -
  have f1: "Client_Get ((exampleReconciler exampleCPA)
              \<lparr>Client_Get := \<lambda>q v. (Inl (StatusNotFound ''cpa''), v)\<rparr>) exampleRequest 0 =
              (Inl (StatusNotFound ''cpa''), 0)"
    by simp
  have f2: "Client_Get ((exampleReconciler exampleCPA)
              \<lparr>Client_Get := \<lambda>q v. (Inl (ErrOther ''timeout''), v)\<rparr>) exampleRequest 0 =
              (Inl (ErrOther ''timeout''), 0)"
    by simp
  have d1: "Client_Get (exampleReconciler (deletingCPA ''3'')) exampleRequest 0 =
              (Inr (deletingCPA ''3''), 0)"
    by (simp add: exampleReconciler_def)
  have d2: "DeletionTimestamp (CPAObjectMeta (deletingCPA ''3'')) = Some 1700000000"
    by (simp add: example_defs)
  have p1: "Client_Get (exampleReconciler (pausedCPA ''3'')) exampleRequest 0 =
              (Inr (pausedCPA ''3''), 0)"
    by (simp add: exampleReconciler_def)
  have p2: "DeletionTimestamp (CPAObjectMeta (pausedCPA ''3'')) = None"
    by (simp add: example_defs)
  have p3: "GetAnnotations (pausedCPA ''3'') PausedReplicasAnnotation = Some ''3''"
    by (simp add: example_defs GetAnnotations_def)
  have n1: "Client_Get (exampleReconciler exampleCPA) exampleRequest 0 = (Inr exampleCPA, 0)"
    by (simp add: exampleReconciler_def)
  have n2: "DeletionTimestamp (CPAObjectMeta exampleCPA) = None"
    by (simp add: example_defs)
  have n3: "GetAnnotations exampleCPA PausedReplicasAnnotation = None"
    by (simp add: example_defs GetAnnotations_def)
  have run1: "map pauseWork
      (calls (snd (Reconcile (exampleReconciler (pausedCPA ''3'')) exampleRequest 0))) =
      [False, True, True, True]"
    by (simp add: run_defs example_defs parse_defs)
  have run2: "map normalWork
      (calls (snd (Reconcile (exampleReconciler exampleCPA) exampleRequest 0))) =
      [False, True, True, True, True, True]"
    by (simp add: run_defs example_defs)
  have "Reconcile ((exampleReconciler exampleCPA)
          \<lparr>Client_Get := \<lambda>q v. (Inl (StatusNotFound ''cpa''), v)\<rparr>) exampleRequest 0 =
        (Return emptyResult
           (if IsNotFound (StatusNotFound ''cpa'') then None else Some (StatusNotFound ''cpa'')),
         \<lparr>world = 0, calls = [ClientGet exampleRequest]\<rparr>)"
    using C8_one_path [OF f1] by blast
  then have gone: "Reconcile ((exampleReconciler exampleCPA)
          \<lparr>Client_Get := \<lambda>q v. (Inl (StatusNotFound ''cpa''), v)\<rparr>) exampleRequest 0 =
        (Return emptyResult None, \<lparr>world = 0, calls = [ClientGet exampleRequest]\<rparr>)"
    by (simp add: IsNotFound_def)
  have "Reconcile ((exampleReconciler exampleCPA)
          \<lparr>Client_Get := \<lambda>q v. (Inl (ErrOther ''timeout''), v)\<rparr>) exampleRequest 0 =
        (Return emptyResult
           (if IsNotFound (ErrOther ''timeout'') then None else Some (ErrOther ''timeout'')),
         \<lparr>world = 0, calls = [ClientGet exampleRequest]\<rparr>)"
    using C8_one_path [OF f2] by blast
  then have failed: "Reconcile ((exampleReconciler exampleCPA)
          \<lparr>Client_Get := \<lambda>q v. (Inl (ErrOther ''timeout''), v)\<rparr>) exampleRequest 0 =
        (Return emptyResult (Some (ErrOther ''timeout'')),
         \<lparr>world = 0, calls = [ClientGet exampleRequest]\<rparr>)"
    by (simp add: IsNotFound_def)
  have deleted: "Reconcile (exampleReconciler (deletingCPA ''3'')) exampleRequest 0 =
        (Return emptyResult None, \<lparr>world = 0, calls = [ClientGet exampleRequest]\<rparr>)"
    using C8_one_path [OF d1] d2 by auto
  have quiet1: "list_all (\<lambda>c. \<not> normalWork c)
      (calls (snd (Reconcile (exampleReconciler (pausedCPA ''3'')) exampleRequest 0)))"
    using C8_one_path [OF p1] p2 p3 by blast
  have quiet2: "list_all (\<lambda>c. \<not> pauseWork c)
      (calls (snd (Reconcile (exampleReconciler exampleCPA) exampleRequest 0)))"
    using C8_one_path [OF n1] n2 n3 by blast
  show ?thesis
    using gone failed d2 deleted quiet1 quiet2 p3 n3 run1 run2 by blast
qed

text \<open>
  C9. For every resource whose deletion timestamp is set, Reconcile returns the empty result
  and no error right after the fetch: the fetch is its only call and the cluster is as the
  fetch left it. The pause annotation is not looked at, so the pause-override path does not
  run even when the annotation is present.
\<close>

theorem C9_deletion_timestamp_stops:
  assumes "Client_Get r req w = (Inr instance, w')"
    and "DeletionTimestamp (CPAObjectMeta instance) = Some t"
  shows "Reconcile r req w = (Return emptyResult None, \<lparr>world = w', calls = [ClientGet req]\<rparr>)"
  using assms by (simp add: Reconcile_def invoke_def)

theorem C9_deletion_timestamp_stops_witness:
  "Client_Get (exampleReconciler (deletingCPA ''3'')) exampleRequest 0 =
     (Inr (deletingCPA ''3''), 0) \<and>
   DeletionTimestamp (CPAObjectMeta (deletingCPA ''3'')) = Some 1700000000 \<and>
   GetAnnotations (deletingCPA ''3'') PausedReplicasAnnotation = Some ''3'' \<and>
   Reconcile (exampleReconciler (deletingCPA ''3'')) exampleRequest 0 =
     (Return emptyResult None, \<lparr>world = 0, calls = [ClientGet exampleRequest]\<rparr>)"
proof -
  have h1: "Client_Get (exampleReconciler (deletingCPA ''3'')) exampleRequest 0 =
              (Inr (deletingCPA ''3''), 0)"
    by (simp add: exampleReconciler_def)
  have h2: "DeletionTimestamp (CPAObjectMeta (deletingCPA ''3'')) = Some 1700000000"
    by (simp add: example_defs)
  have h3: "GetAnnotations (deletingCPA ''3'') PausedReplicasAnnotation = Some ''3''"
    by (simp add: example_defs GetAnnotations_def)
  show ?thesis
    using C9_deletion_timestamp_stops [OF h1 h2] h1 h2 h3 by simp
qed

text \<open>
  C10. On the pause-override path, once the delete has succeeded and the scale of the target
  has been fetched, the scale handed to the update is the fetched scale with the replica
  count of its spec replaced by the parsed annotation value, in the same namespace and for
  the same group and resource as the get: type meta, object meta and status are those of the
  fetched scale. The update is the last call, and the replica count written, read as a signed
  32-bit integer, is the number the annotation denotes.
\<close>

theorem C10_scale_update_frame:
  assumes "Client_Get r req w = (Inr instance, w1)"
    and "DeletionTimestamp (CPAObjectMeta instance) = None"
    and "GetAnnotations instance PausedReplicasAnnotation = Some s"
    and "ParseInt s = (n, None)"
    and "Client_Delete r instance w1 = (None, w2)"
    and "ParseGroupVersion (RefAPIVersion (ScaleTargetRef (Spec instance))) = Inr gv"
    and "gr = \<lparr>GRGroup = Group gv, GRResource = RefKind (ScaleTargetRef (Spec instance))\<rparr>"
    and "Scales_Get r (Namespace (CPAObjectMeta instance)) gr
           (RefName (ScaleTargetRef (Spec instance))) w2 = (Inr sc, w3)"
  shows "calls (snd (Reconcile r req w)) =
           [ClientGet req, ClientDelete instance,
            ScalesGet (Namespace (CPAObjectMeta instance)) gr
              (RefName (ScaleTargetRef (Spec instance))),
            ScalesUpdate (Namespace (CPAObjectMeta instance)) gr
              (sc\<lparr>ScaleSpec := (ScaleSpec sc)\<lparr>Replicas := word_of_int n\<rparr>\<rparr>)] \<and>
         sint (Replicas (ScaleSpec (sc\<lparr>ScaleSpec := (ScaleSpec sc)\<lparr>Replicas := word_of_int n\<rparr>\<rparr>)))
           = n"
  using assms ParseInt_range [OF assms(4)]
  by (auto simp add: Reconcile_def invoke_def pausePath_def Let_def sint_int32
        split: prod.splits sum.splits option.splits)

theorem C10_scale_update_frame_witness:
  "ParseInt ''-5'' = (- 5, None) \<and>
   ParseGroupVersion (RefAPIVersion (ScaleTargetRef (Spec (pausedCPA ''-5'')))) =
     Inr \<lparr>Group = ''apps'', Version = ''v1''\<rparr> \<and>
   calls (snd (Reconcile (exampleReconciler (pausedCPA ''-5'')) exampleRequest 0)) =
     [ClientGet exampleRequest, ClientDelete (pausedCPA ''-5''),
      ScalesGet ''prod'' \<lparr>GRGroup = ''apps'', GRResource = ''Deployment''\<rparr> ''x'',
      ScalesUpdate ''prod'' \<lparr>GRGroup = ''apps'', GRResource = ''Deployment''\<rparr>
        \<lparr>ScaleTypeMeta = \<lparr>Kind = ''Scale'', APIVersion = ''autoscaling/v1''\<rparr>,
         ScaleObjectMeta = emptyObjectMeta\<lparr>Name := ''x'', Namespace := ''prod''\<rparr>,
         ScaleSpec = \<lparr>Replicas = - 5\<rparr>,
         ScaleStatus = \<lparr>StatusReplicas = 7, Selector = ''app=x''\<rparr>\<rparr>] \<and>
   sint (- 5 :: int32) = - 5"
proof -
  have h1: "Client_Get (exampleReconciler (pausedCPA ''-5'')) exampleRequest 0 =
              (Inr (pausedCPA ''-5''), 0)"
    by (simp add: exampleReconciler_def)
  have h2: "DeletionTimestamp (CPAObjectMeta (pausedCPA ''-5'')) = None"
    by (simp add: example_defs)
  have h3: "GetAnnotations (pausedCPA ''-5'') PausedReplicasAnnotation = Some ''-5''"
    by (simp add: example_defs GetAnnotations_def)
  have h4: "ParseInt ''-5'' = (- 5, None)"
    by (simp add: parse_defs)
  have h5: "Client_Delete (exampleReconciler (pausedCPA ''-5'')) (pausedCPA ''-5'') 0 =
              (None, Suc 0)"
    by (simp add: exampleReconciler_def)
  have h6: "ParseGroupVersion (RefAPIVersion (ScaleTargetRef (Spec (pausedCPA ''-5'')))) =
              Inr \<lparr>Group = ''apps'', Version = ''v1''\<rparr>"
    by (simp add: example_defs parse_defs)
  have h7: "\<lparr>GRGroup = ''apps'', GRResource = ''Deployment''\<rparr> =
              \<lparr>GRGroup = Group \<lparr>Group = ''apps'', Version = ''v1''\<rparr>,
               GRResource = RefKind (ScaleTargetRef (Spec (pausedCPA ''-5'')))\<rparr>"
    by (simp add: example_defs)
  have h8: "Scales_Get (exampleReconciler (pausedCPA ''-5''))
              (Namespace (CPAObjectMeta (pausedCPA ''-5'')))
              \<lparr>GRGroup = ''apps'', GRResource = ''Deployment''\<rparr>
              (RefName (ScaleTargetRef (Spec (pausedCPA ''-5'')))) (Suc 0) =
              (Inr exampleScale, Suc 0)"
    by (simp add: exampleReconciler_def)
  show ?thesis
    using C10_scale_update_frame [OF h1 h2 h3 h4 h5 h6 h7 h8] h4 h6
    by (simp add: example_defs)
qed

end
